theory Spec2Isabelle
  imports Main
begin

section \<open>Values decoded from JSON and their Python rendering\<close>

text \<open>
  The server moves three kinds of values around: the argument mapping of a tool call,
  the decoded body of an upstream response, and the input schemas of the catalog. All
  are what Python's JSON decoder produces: \<open>None\<close>, booleans, integers, strings, lists
  and dicts. A dict is an association list in insertion order, since \<open>str\<close> prints the
  items in that order. A \<open>string\<close> is a sequence of code points below 256. Numbers with a
  fraction or an exponent decode to floats, whose rendering is the runtime's float
  formatting; they are not part of this model.
\<close>

datatype json =
    JNull
  | JBool bool
  | JInt int
  | JStr string
  | JArr "json list"
  | JObj "(string \<times> json) list"

type_synonym pydict = "(string \<times> json) list"

text \<open>Truth value testing (\<open>not x\<close>, \<open>if x\<close>): empty containers, zero, \<open>None\<close> and
  \<open>False\<close> are false.\<close>

fun truthy :: "json \<Rightarrow> bool" where
  "truthy JNull = False"
| "truthy (JBool b) = b"
| "truthy (JInt i) = (i \<noteq> 0)"
| "truthy (JStr s) = (s \<noteq> [])"
| "truthy (JArr xs) = (xs \<noteq> [])"
| "truthy (JObj kvs) = (kvs \<noteq> [])"

text \<open>\<open>str\<close> of an integer: decimal digits, a minus sign for negative numbers.\<close>

definition digit_char :: "nat \<Rightarrow> char" where
  "digit_char d = ''0123456789abcdef'' ! d"

fun digits :: "nat \<Rightarrow> string" where
  "digits n = (if n < 10 then [digit_char n] else digits (n div 10) @ [digit_char (n mod 10)])"

declare digits.simps [simp del]

definition str_int :: "int \<Rightarrow> string" where
  "str_int i = (if i < 0 then CHR ''-'' # digits (nat (- i)) else digits (nat i))"

text \<open>
  \<open>repr\<close> of a string. The quote is the single quote, unless the string holds a single
  quote and no double quote. The quote and the backslash are escaped with a backslash,
  tab, newline and carriage return are written \<open>\t\<close>, \<open>\n\<close>, \<open>\r\<close>, every other
  non-printable code point is written \<open>\xhh\<close>, and the rest is copied.
\<close>

definition squote :: char where "squote = CHR 0x27"
definition dquote :: char where "dquote = CHR 0x22"
definition backslash :: char where "backslash = CHR 0x5C"

definition repr_quote :: "string \<Rightarrow> char" where
  "repr_quote s = (if squote \<in> set s \<and> dquote \<notin> set s then dquote else squote)"

definition printable :: "char \<Rightarrow> bool" where
  "printable c =
     (let n = (of_char c :: nat) in (32 \<le> n \<and> n < 127) \<or> (161 \<le> n \<and> n \<noteq> 173))"

definition hex2 :: "nat \<Rightarrow> string" where
  "hex2 n = [digit_char (n div 16), digit_char (n mod 16)]"

definition repr_char :: "char \<Rightarrow> char \<Rightarrow> string" where
  "repr_char q c =
     (if c = q \<or> c = backslash then [backslash, c]
      else if c = CHR 0x09 then [backslash, CHR ''t'']
      else if c = CHR 0x0A then [backslash, CHR ''n'']
      else if c = CHR 0x0D then [backslash, CHR ''r'']
      else if printable c then [c]
      else [backslash, CHR ''x''] @ hex2 (of_char c))"

definition repr_str :: "string \<Rightarrow> string" where
  "repr_str s = (let q = repr_quote s in q # concat (map (repr_char q) s) @ [q])"

fun join :: "string \<Rightarrow> string list \<Rightarrow> string" where
  "join sep [] = []"
| "join sep [x] = x"
| "join sep (x # y # ys) = x @ sep @ join sep (y # ys)"

text \<open>\<open>repr\<close> of a value; the items of a list and of a dict are rendered with \<open>repr\<close>.\<close>

fun py_repr :: "json \<Rightarrow> string" where
  "py_repr JNull = ''None''"
| "py_repr (JBool b) = (if b then ''True'' else ''False'')"
| "py_repr (JInt i) = str_int i"
| "py_repr (JStr s) = repr_str s"
| "py_repr (JArr xs) = ''['' @ join '', '' (map py_repr xs) @ '']''"
| "py_repr (JObj kvs) =
     ''{'' @ join '', '' (map (\<lambda>(k, v). repr_str k @ '': '' @ py_repr v) kvs) @ ''}''"

text \<open>\<open>str\<close> of a value, which is also what an f-string field \<open>{x}\<close> inserts: a string
  is taken as it is, every other value as its \<open>repr\<close>.\<close>

definition py_str :: "json \<Rightarrow> string" where
  "py_str v = (case v of JStr s \<Rightarrow> s | _ \<Rightarrow> py_repr v)"

text \<open>The dict operations the handlers use: \<open>k in d\<close> and \<open>d.get(k, default)\<close>.\<close>

definition dict_in :: "string \<Rightarrow> pydict \<Rightarrow> bool" where
  "dict_in k d = (map_of d k \<noteq> None)"

definition dict_get :: "pydict \<Rightarrow> string \<Rightarrow> json \<Rightarrow> json" where
  "dict_get d k dflt = (case map_of d k of None \<Rightarrow> dflt | Some v \<Rightarrow> v)"

text \<open>The truth value of the \<open>arguments\<close> parameter, a dict or \<open>None\<close>.\<close>

definition args_truthy :: "pydict option \<Rightarrow> bool" where
  "args_truthy arguments = (case arguments of None \<Rightarrow> False | Some d \<Rightarrow> d \<noteq> [])"

text \<open>\<open>str(arguments)\<close>, for the log.\<close>

definition str_args :: "pydict option \<Rightarrow> string" where
  "str_args arguments = (case arguments of None \<Rightarrow> ''None'' | Some d \<Rightarrow> py_str (JObj d))"

section \<open>The environment: credential, upstream, log\<close>

text \<open>
  What \<open>client.get\<close> and the two calls on its result can do, as the request helper sees
  it: the GET raises an exception (timeout, connection failure) whose \<open>str\<close> is the
  message, or it returns a response. \<open>raise_for_status\<close> raises on a response whose
  status is not 2xx, with the message \<open>status_error\<close>. \<open>json()\<close> raises on a malformed
  body (\<open>Inl\<close> the message) or returns the decoded value.
\<close>

record response =
  status_code :: int
  status_error :: string
  json_result :: "string + json"

datatype get_outcome = GetRaises string | GetReturns response

definition is_success :: "response \<Rightarrow> bool" where
  "is_success r = (200 \<le> status_code r \<and> status_code r \<le> 299)"

type_synonym headers = "(string \<times> string) list"

record env =
  API_TOKEN :: string
  client_get :: "string \<Rightarrow> headers \<Rightarrow> get_outcome"

definition API_BASE :: string where
  "API_BASE = ''pro-api.solscan.io''"

text \<open>The effects of a call: the lines appended to the log (level and message) and the
  GET requests sent upstream (URL and headers), both in order.\<close>

datatype level = INFO | ERROR

record world =
  log :: "(level \<times> string) list"
  http_requests :: "(string \<times> headers) list"

definition logging_info :: "string \<Rightarrow> world \<Rightarrow> world" where
  "logging_info msg w = w\<lparr>log := log w @ [(INFO, msg)]\<rparr>"

definition logging_error :: "string \<Rightarrow> world \<Rightarrow> world" where
  "logging_error msg w = w\<lparr>log := log w @ [(ERROR, msg)]\<rparr>"

definition send_get :: "string \<Rightarrow> headers \<Rightarrow> world \<Rightarrow> world" where
  "send_get url hdrs w = w\<lparr>http_requests := http_requests w @ [(url, hdrs)]\<rparr>"

section \<open>The request helper\<close>

text \<open>The \<open>except Exception\<close> branch of \<open>make_solscan_request\<close>: log the message and
  return the dict \<open>{"error": str(e)}\<close>.\<close>

definition request_failed :: "string \<Rightarrow> world \<Rightarrow> json \<times> world" where
  "request_failed e w =
     (JObj [(''error'', JStr e)], logging_error (''Request failed: '' @ e) w)"

definition make_solscan_request :: "env \<Rightarrow> string \<Rightarrow> world \<Rightarrow> json \<times> world" where
  "make_solscan_request env url w =
     (let hdrs = [(''token'', API_TOKEN env)];
          w1 = logging_info (''Request URL: '' @ url) w;
          w2 = logging_info
                 (''Request Headers: '' @ py_str (JObj (map (\<lambda>(k, v). (k, JStr v)) hdrs))) w1;
          w3 = send_get url hdrs w2
      in case client_get env url hdrs of
           GetRaises e \<Rightarrow> request_failed e w3
         | GetReturns r \<Rightarrow>
             if \<not> is_success r then request_failed (status_error r) w3
             else (case json_result r of
                     Inl e \<Rightarrow> request_failed e w3
                   | Inr response_data \<Rightarrow>
                       let w4 = logging_info
                                  (''Response Status: '' @ py_str (JInt (status_code r))) w3;
                           w5 = logging_info
                                  (''Response Data: '' @ py_str response_data) w4
                       in (response_data, w5)))"

section \<open>The tool catalog\<close>

record tool =
  tool_name :: string
  description :: string
  inputSchema :: json

definition address_schema :: "string \<Rightarrow> string \<times> json" where
  "address_schema descr =
     (''address'', JObj [(''type'', JStr ''string''), (''description'', JStr descr)])"

definition page_schema :: "string \<Rightarrow> string \<times> json" where
  "page_schema descr =
     (''page'', JObj [(''type'', JStr ''integer''), (''description'', JStr descr),
                      (''default'', JInt 1), (''minimum'', JInt 1)])"

definition bounded_schema :: "string \<Rightarrow> string \<Rightarrow> string \<times> json" where
  "bounded_schema key descr =
     (key, JObj [(''type'', JStr ''integer''), (''description'', JStr descr),
                 (''default'', JInt 10), (''minimum'', JInt 1), (''maximum'', JInt 100)])"

definition enum_schema :: "string \<Rightarrow> string \<Rightarrow> string \<Rightarrow> string list \<Rightarrow> string \<times> json" where
  "enum_schema key descr dflt vals =
     (key, JObj [(''type'', JStr ''string''), (''description'', JStr descr),
                 (''default'', JStr dflt), (''enum'', JArr (map JStr vals))])"

definition object_schema :: "(string \<times> json) list \<Rightarrow> string list \<Rightarrow> json" where
  "object_schema props req =
     JObj [(''type'', JStr ''object''), (''properties'', JObj props),
           (''required'', JArr (map JStr req))]"

text \<open>\<open>handle_list_tools\<close>: the five descriptors the source returns, in its order. The
  descriptors it has commented out (list-sol-tokens, get-token-market,
  get-trending-tokens, get-top-tokens) are not returned.\<close>

definition handle_list_tools :: "tool list" where
  "handle_list_tools =
     [\<lparr>tool_name = ''get-sol-token-price'',
       description = ''Get sonala price information from Solscan'',
       inputSchema = object_schema
         [address_schema ''Token address on Solana blockchain''] [''address'']\<rparr>,
      \<lparr>tool_name = ''get-latest-blocks'',
       description = ''Get sonala latest blocks information from Solscan'',
       inputSchema = object_schema
         [bounded_schema ''limit'' ''Number of latest blocks to return''] []\<rparr>,
      \<lparr>tool_name = ''get-account-info'',
       description = ''Get sonala accounts information for a Solana address'',
       inputSchema = object_schema
         [address_schema ''Solana account address'',
          page_schema ''Page number (1)'',
          bounded_schema ''page_size'' ''Number of items per page''] [''address'']\<rparr>,
      \<lparr>tool_name = ''get-account-activities'',
       description = ''Get DeFi activities for a Solana address'',
       inputSchema = object_schema
         [address_schema ''Solana account address'',
          page_schema ''Page number (1-based)'',
          bounded_schema ''page_size'' ''Number of items per page'',
          enum_schema ''sort_by'' ''Field to sort by'' ''block_time'' [''block_time''],
          enum_schema ''sort_order'' ''Sort order (asc or desc)'' ''desc'' [''asc'', ''desc'']]
         [''address'']\<rparr>,
      \<lparr>tool_name = ''get-token-info'',
       description = ''Get  CA address detailed token metadata  information from Solscan'',
       inputSchema = object_schema
         [address_schema ''Token address on Solana blockchain''] [''address'']\<rparr>]"

text \<open>The names of the catalog, and the parameters a descriptor declares as required
  (the strings of its schema's \<open>required\<close> list).\<close>

definition tool_names :: "string list" where
  "tool_names = map tool_name handle_list_tools"

definition required_params :: "tool \<Rightarrow> string list" where
  "required_params t =
     (case inputSchema t of
        JObj kvs \<Rightarrow>
          (case map_of kvs ''required'' of
             Some (JArr xs) \<Rightarrow> concat (map (\<lambda>x. case x of JStr s \<Rightarrow> [s] | _ \<Rightarrow> []) xs)
           | _ \<Rightarrow> [])
      | _ \<Rightarrow> [])"

section \<open>The dispatcher\<close>

datatype content =
    TextContent string
  | ImageContent string string
  | EmbeddedResource json

datatype error = ValueError string | KeyError string

text \<open>The dict behind \<open>arguments\<close>. The handlers read it only where the truth test of
  \<open>arguments\<close> has excluded \<open>None\<close>: to the right of \<open>not arguments or\<close>, in the
  true branch of \<open>if arguments\<close>, or after the early return.\<close>

definition the_args :: "pydict option \<Rightarrow> pydict" where
  "the_args arguments = (case arguments of None \<Rightarrow> [] | Some d \<Rightarrow> d)"

text \<open>\<open>d[k]\<close>: the subscript raises \<open>KeyError\<close> on a missing key.\<close>

definition dict_item :: "pydict \<Rightarrow> string \<Rightarrow> error + json" where
  "dict_item d k = (case map_of d k of None \<Rightarrow> Inl (KeyError k) | Some v \<Rightarrow> Inr v)"

text \<open>The tail every branch shares: send the request, and answer with the failure
  message when the result is false, with \<open>str\<close> of the result otherwise.\<close>

definition fetch_text ::
  "env \<Rightarrow> string \<Rightarrow> string \<Rightarrow> world \<Rightarrow> (error + content list) \<times> world" where
  "fetch_text env url failure w =
     (let (data, w') = make_solscan_request env url w
      in if \<not> truthy data then (Inr [TextContent failure], w')
         else (Inr [TextContent (py_str data)], w'))"

definition address_required :: "content list" where
  "address_required = [TextContent ''Address parameter is required'']"

definition handle_call_tool ::
  "env \<Rightarrow> string \<Rightarrow> pydict option \<Rightarrow> world \<Rightarrow> (error + content list) \<times> world" where
  "handle_call_tool env name arguments w0 =
     (let w = logging_info (''Arguments: '' @ str_args arguments)
                (logging_info (''Tool called: '' @ name) w0)
      in
      if name = ''get-sol-token-price'' then
        if \<not> args_truthy arguments \<or> \<not> dict_in ''address'' (the_args arguments)
        then (Inr address_required, w)
        else (case dict_item (the_args arguments) ''address'' of
                Inl e \<Rightarrow> (Inl e, w)
              | Inr address \<Rightarrow>
                  fetch_text env
                    (''https://'' @ API_BASE @ ''/v2.0/token/price?address='' @ py_str address)
                    ''Failed to retrieve token price data'' w)
      else if name = ''list-sol-tokens'' then
        (let page = (if args_truthy arguments
                     then dict_get (the_args arguments) ''page'' (JInt 1) else JInt 1);
             page_size = (if args_truthy arguments
                          then dict_get (the_args arguments) ''page_size'' (JInt 10)
                          else JInt 10)
         in fetch_text env
              (''https://'' @ API_BASE @ ''/v2.0/token/list?page='' @ py_str page
                 @ ''&page_size='' @ py_str page_size)
              ''Failed to retrieve token list data'' w)
      else if name = ''get-token-market'' then
        if \<not> args_truthy arguments \<or> \<not> dict_in ''address'' (the_args arguments)
        then (Inr address_required, w)
        else (case dict_item (the_args arguments) ''address'' of
                Inl e \<Rightarrow> (Inl e, w)
              | Inr address \<Rightarrow>
                  fetch_text env
                    (''https://'' @ API_BASE @ ''/v2.0/token/market?address='' @ py_str address)
                    ''Failed to retrieve token market data'' w)
      else if name = ''get-latest-blocks'' then
        (let limit = (if args_truthy arguments
                      then dict_get (the_args arguments) ''limit'' (JInt 10) else JInt 10)
         in fetch_text env
              (''https://'' @ API_BASE @ ''/v2.0/block/last?limit='' @ py_str limit)
              ''Failed to retrieve latest blocks data'' w)
      else if name = ''get-account-info'' then
        if \<not> args_truthy arguments \<or> \<not> dict_in ''address'' (the_args arguments)
        then (Inr address_required, w)
        else
          (let page = dict_get (the_args arguments) ''page'' (JInt 1);
               page_size = dict_get (the_args arguments) ''page_size'' (JInt 10)
           in case dict_item (the_args arguments) ''address'' of
                Inl e \<Rightarrow> (Inl e, w)
              | Inr address \<Rightarrow>
                  fetch_text env
                    (''https://'' @ API_BASE @ ''/v2.0/account/token-accounts?address=''
                       @ py_str address @ ''&type=token&page='' @ py_str page
                       @ ''&page_size='' @ py_str page_size)
                    ''Failed to retrieve account tokens data'' w)
      else if name = ''get-account-activities'' then
        if \<not> args_truthy arguments \<or> \<not> dict_in ''address'' (the_args arguments)
        then (Inr address_required, w)
        else
          (let page = dict_get (the_args arguments) ''page'' (JInt 1);
               page_size = dict_get (the_args arguments) ''page_size'' (JInt 10);
               sort_by = dict_get (the_args arguments) ''sort_by'' (JStr ''block_time'');
               sort_order = dict_get (the_args arguments) ''sort_order'' (JStr ''desc'')
           in case dict_item (the_args arguments) ''address'' of
                Inl e \<Rightarrow> (Inl e, w)
              | Inr address \<Rightarrow>
                  fetch_text env
                    (''https://'' @ API_BASE @ ''/v2.0/account/defi/activities''
                       @ ''?address='' @ py_str address
                       @ ''&page='' @ py_str page
                       @ ''&page_size='' @ py_str page_size
                       @ ''&sort_by='' @ py_str sort_by
                       @ ''&sort_order='' @ py_str sort_order)
                    ''Failed to retrieve account activities data'' w)
      else if name = ''get-token-info'' then
        if \<not> args_truthy arguments \<or> \<not> dict_in ''address'' (the_args arguments)
        then (Inr address_required, w)
        else (case dict_item (the_args arguments) ''address'' of
                Inl e \<Rightarrow> (Inl e, w)
              | Inr address \<Rightarrow>
                  fetch_text env
                    (''https://'' @ API_BASE @ ''/v2.0/token/meta?address='' @ py_str address)
                    ''Failed to retrieve token metadata'' w)
      else (Inl (ValueError (''Unknown tool: '' @ name)), w))"

section \<open>Notions used to state the properties\<close>

text \<open>The keys a call supplies, and whether it supplies every parameter the descriptor
  declares as required.\<close>

definition arg_keys :: "pydict option \<Rightarrow> string set" where
  "arg_keys arguments = (case arguments of None \<Rightarrow> {} | Some d \<Rightarrow> fst ` set d)"

definition has_required :: "tool \<Rightarrow> pydict option \<Rightarrow> bool" where
  "has_required t arguments = (set (required_params t) \<subseteq> arg_keys arguments)"

text \<open>The URLs of the requests a call adds to the trace.\<close>

definition sent_urls :: "env \<Rightarrow> string \<Rightarrow> pydict option \<Rightarrow> world \<Rightarrow> string list" where
  "sent_urls env name arguments w =
     map fst (drop (length (http_requests w))
                (http_requests (snd (handle_call_tool env name arguments w))))"

text \<open>The message of the exception that the \<open>try\<close> block of the request helper meets
  on an outcome of the GET, if it meets one: the GET raises, the status is not 2xx, or
  the body does not decode.\<close>

definition request_error :: "get_outcome \<Rightarrow> string option" where
  "request_error out =
     (case out of
        GetRaises e \<Rightarrow> Some e
      | GetReturns r \<Rightarrow>
          if \<not> is_success r then Some (status_error r)
          else (case json_result r of Inl e \<Rightarrow> Some e | Inr v \<Rightarrow> None))"

text \<open>The failure message in the branch of each listed tool.\<close>

definition failure_messages :: "(string \<times> string) list" where
  "failure_messages =
     [(''get-sol-token-price'', ''Failed to retrieve token price data''),
      (''get-latest-blocks'', ''Failed to retrieve latest blocks data''),
      (''get-account-info'', ''Failed to retrieve account tokens data''),
      (''get-account-activities'', ''Failed to retrieve account activities data''),
      (''get-token-info'', ''Failed to retrieve token metadata'')]"

text \<open>Fixtures for concrete runs: an empty log and request trace, a 200 response
  carrying a decoded value, and an environment whose upstream answers every GET the
  same way.\<close>

definition fresh_world :: world where
  "fresh_world = \<lparr>log = [], http_requests = []\<rparr>"

definition ok_response :: "json \<Rightarrow> response" where
  "ok_response v = \<lparr>status_code = 200, status_error = [], json_result = Inr v\<rparr>"

definition mock_env :: "get_outcome \<Rightarrow> env" where
  "mock_env out = \<lparr>API_TOKEN = ''secret'', client_get = (\<lambda>url hdrs. out)\<rparr>"

text \<open>Arguments outside every bound and enum the schemas declare.\<close>

definition wild_args :: pydict where
  "wild_args = [(''address'', JStr ''A''), (''limit'', JInt 500), (''page'', JInt (- 3)),
     (''page_size'', JInt 1000), (''sort_by'', JStr ''fee''), (''sort_order'', JStr ''sideways'')]"

text \<open>A response with status 500.\<close>

definition server_error :: response where
  "server_error =
     \<lparr>status_code = 500, status_error = ''Server error'', json_result = Inr (JObj [])\<rparr>"

section \<open>Effects of the helper and of the branches\<close>

lemma logging_info_requests: "http_requests (logging_info m w) = http_requests w"
  by (simp add: logging_info_def)

lemma logging_error_requests: "http_requests (logging_error m w) = http_requests w"
  by (simp add: logging_error_def)

lemma send_get_requests: "http_requests (send_get u h w) = http_requests w @ [(u, h)]"
  by (simp add: send_get_def)

lemma request_failed_requests: "http_requests (snd (request_failed e w)) = http_requests w"
  by (simp add: request_failed_def logging_error_requests)

lemma make_solscan_request_sends:
  "http_requests (snd (make_solscan_request env url w)) =
     http_requests w @ [(url, [(''token'', API_TOKEN env)])]"
  by (simp add: make_solscan_request_def Let_def request_failed_requests
        logging_info_requests send_get_requests
      split: get_outcome.split sum.split)

lemma fetch_text_sends:
  "http_requests (snd (fetch_text env url failure w)) =
     http_requests w @ [(url, [(''token'', API_TOKEN env)])]"
  by (simp add: fetch_text_def Let_def case_prod_unfold make_solscan_request_sends)

lemma fetch_text_reply:
  "fst (fetch_text env url failure w) =
     Inr [TextContent (let data = fst (make_solscan_request env url w)
                       in if truthy data then py_str data else failure)]"
  by (simp add: fetch_text_def Let_def case_prod_unfold)

lemma call_blocks:
  "handle_call_tool env ''get-latest-blocks'' arguments w0 =
     fetch_text env
       (''https://'' @ API_BASE @ ''/v2.0/block/last?limit='' @
          py_str (if args_truthy arguments
                  then dict_get (the_args arguments) ''limit'' (JInt 10) else JInt 10))
       ''Failed to retrieve latest blocks data''
       (logging_info (''Arguments: '' @ str_args arguments)
          (logging_info (''Tool called: get-latest-blocks'') w0))"
  by (simp add: handle_call_tool_def Let_def)


lemma call_rejects:
  assumes "name \<in> {''get-sol-token-price'', ''get-account-info'', ''get-account-activities'', ''get-token-info''}"
    and "\<not> args_truthy arguments \<or> \<not> dict_in ''address'' (the_args arguments)"
  shows "handle_call_tool env name arguments w0 =
     (Inr address_required,
      logging_info (''Arguments: '' @ str_args arguments)
          (logging_info (''Tool called: '' @ name) w0))"
  using assms by (auto simp add: handle_call_tool_def Let_def)

lemma call_price:
  assumes "map_of d ''address'' = Some a"
  shows "handle_call_tool env ''get-sol-token-price'' (Some d) w0 =
     fetch_text env (''https://'' @ API_BASE @ ''/v2.0/token/price?address='' @ py_str a)
       ''Failed to retrieve token price data''
       (logging_info (''Arguments: '' @ str_args (Some d))
          (logging_info (''Tool called: get-sol-token-price'') w0))"
  using assms
  by (auto simp add: handle_call_tool_def Let_def args_truthy_def the_args_def dict_in_def dict_item_def)

lemma call_info:
  assumes "map_of d ''address'' = Some a"
  shows "handle_call_tool env ''get-account-info'' (Some d) w0 =
     fetch_text env
       (''https://'' @ API_BASE @ ''/v2.0/account/token-accounts?address='' @ py_str a
          @ ''&type=token&page='' @ py_str (dict_get d ''page'' (JInt 1))
          @ ''&page_size='' @ py_str (dict_get d ''page_size'' (JInt 10)))
       ''Failed to retrieve account tokens data''
       (logging_info (''Arguments: '' @ str_args (Some d))
          (logging_info (''Tool called: get-account-info'') w0))"
  using assms
  by (auto simp add: handle_call_tool_def Let_def args_truthy_def the_args_def dict_in_def dict_item_def)

lemma call_activities:
  assumes "map_of d ''address'' = Some a"
  shows "handle_call_tool env ''get-account-activities'' (Some d) w0 =
     fetch_text env
       (''https://'' @ API_BASE @ ''/v2.0/account/defi/activities''
          @ ''?address='' @ py_str a
          @ ''&page='' @ py_str (dict_get d ''page'' (JInt 1))
          @ ''&page_size='' @ py_str (dict_get d ''page_size'' (JInt 10))
          @ ''&sort_by='' @ py_str (dict_get d ''sort_by'' (JStr ''block_time''))
          @ ''&sort_order='' @ py_str (dict_get d ''sort_order'' (JStr ''desc'')))
       ''Failed to retrieve account activities data''
       (logging_info (''Arguments: '' @ str_args (Some d))
          (logging_info (''Tool called: get-account-activities'') w0))"
  using assms
  by (auto simp add: handle_call_tool_def Let_def args_truthy_def the_args_def dict_in_def dict_item_def)

lemma call_meta:
  assumes "map_of d ''address'' = Some a"
  shows "handle_call_tool env ''get-token-info'' (Some d) w0 =
     fetch_text env (''https://'' @ API_BASE @ ''/v2.0/token/meta?address='' @ py_str a)
       ''Failed to retrieve token metadata''
       (logging_info (''Arguments: '' @ str_args (Some d))
          (logging_info (''Tool called: get-token-info'') w0))"
  using assms
  by (auto simp add: handle_call_tool_def Let_def args_truthy_def the_args_def dict_in_def dict_item_def)

lemma call_list_tokens:
  "handle_call_tool env ''list-sol-tokens'' arguments w0 =
     fetch_text env
       (''https://'' @ API_BASE @ ''/v2.0/token/list?page='' @
          py_str (if args_truthy arguments
                  then dict_get (the_args arguments) ''page'' (JInt 1) else JInt 1)
          @ ''&page_size='' @
          py_str (if args_truthy arguments
                  then dict_get (the_args arguments) ''page_size'' (JInt 10) else JInt 10))
       ''Failed to retrieve token list data''
       (logging_info (''Arguments: '' @ str_args arguments)
          (logging_info (''Tool called: list-sol-tokens'') w0))"
  by (simp add: handle_call_tool_def Let_def)

lemma call_unknown:
  assumes "name \<notin> {''get-sol-token-price'', ''list-sol-tokens'', ''get-token-market'',
     ''get-latest-blocks'', ''get-account-info'', ''get-account-activities'', ''get-token-info''}"
  shows "handle_call_tool env name arguments w0 =
     (Inl (ValueError (''Unknown tool: '' @ name)),
      logging_info (''Arguments: '' @ str_args arguments)
          (logging_info (''Tool called: '' @ name) w0))"
  using assms by (simp add: handle_call_tool_def Let_def)

lemma tool_names_eq:
  "tool_names = [''get-sol-token-price'', ''get-latest-blocks'', ''get-account-info'',
     ''get-account-activities'', ''get-token-info'']"
  by (simp add: tool_names_def handle_list_tools_def)

lemma requires_address_names:
  "[tool_name t. t \<leftarrow> handle_list_tools, ''address'' \<in> set (required_params t)] =
     [''get-sol-token-price'', ''get-account-info'', ''get-account-activities'', ''get-token-info'']"
  by (simp add: handle_list_tools_def required_params_def object_schema_def)


lemma make_solscan_request_error:
  assumes "request_error (client_get env url [(''token'', API_TOKEN env)]) = Some e"
  shows "fst (make_solscan_request env url w) = JObj [(''error'', JStr e)]"
  using assms
  by (auto simp add: make_solscan_request_def request_error_def request_failed_def Let_def
      split: get_outcome.splits sum.splits if_splits)

lemma make_solscan_request_ok:
  assumes "client_get env url [(''token'', API_TOKEN env)] = GetReturns r"
    and "is_success r" and "json_result r = Inr v"
  shows "fst (make_solscan_request env url w) = v"
  using assms by (simp add: make_solscan_request_def Let_def)

lemma py_str_small_ints: "py_str (JInt 1) = ''1''" "py_str (JInt 10) = ''10''"
  by (simp_all add: py_str_def str_int_def digits.simps digit_char_def)

lemma falsy_renderings:
  assumes "\<not> truthy v"
  shows "py_str v \<in> {''None'', ''False'', ''0'', [], ''[]'', ''{}''}"
  using assms
  by (cases v) (simp_all add: py_str_def str_int_def digits.simps digit_char_def)

lemma listed_cases:
  assumes "t \<in> set handle_list_tools"
  obtains "tool_name t = ''get-sol-token-price''" "required_params t = [''address'']"
  | "tool_name t = ''get-latest-blocks''" "required_params t = []"
  | "tool_name t = ''get-account-info''" "required_params t = [''address'']"
  | "tool_name t = ''get-account-activities''" "required_params t = [''address'']"
  | "tool_name t = ''get-token-info''" "required_params t = [''address'']"
  using assms
  by (auto simp add: handle_list_tools_def required_params_def object_schema_def)

lemma has_address:
  assumes "''address'' \<in> arg_keys arguments"
  obtains d a where "arguments = Some d" "map_of d ''address'' = Some a"
proof -
  from assms obtain d where d: "arguments = Some d" "''address'' \<in> fst ` set d"
    by (auto simp add: arg_keys_def split: option.splits)
  then obtain a where "map_of d ''address'' = Some a"
    by (metis map_of_eq_None_iff not_Some_eq)
  with d that show thesis by blast
qed

text \<open>Each listed tool, called with its required arguments, is one \<open>fetch_text\<close>.\<close>

lemma failure_message_of:
  "map_of failure_messages ''get-sol-token-price'' = Some ''Failed to retrieve token price data''"
  "map_of failure_messages ''get-latest-blocks'' = Some ''Failed to retrieve latest blocks data''"
  "map_of failure_messages ''get-account-info'' = Some ''Failed to retrieve account tokens data''"
  "map_of failure_messages ''get-account-activities'' =
     Some ''Failed to retrieve account activities data''"
  "map_of failure_messages ''get-token-info'' = Some ''Failed to retrieve token metadata''"
  by (simp_all add: failure_messages_def)

lemma listed_call_fetches:
  assumes "t \<in> set handle_list_tools" and "has_required t arguments"
  obtains url failure w' where
    "handle_call_tool env (tool_name t) arguments w = fetch_text env url failure w'"
    "map_of failure_messages (tool_name t) = Some failure"
    "http_requests w' = http_requests w"
  using assms(1)
proof (cases rule: listed_cases)
  case 1
  with assms(2) have "''address'' \<in> arg_keys arguments" by (simp add: has_required_def)
  then obtain d a where args: "arguments = Some d" and addr: "map_of d ''address'' = Some a"
    by (rule has_address)
  show ?thesis
    by (rule that [OF _ failure_message_of(1) [folded 1(1)]],
        simp only: 1(1) args, rule call_price [OF addr], simp add: logging_info_requests)
next
  case 2
  show ?thesis
    by (rule that [OF _ failure_message_of(2) [folded 2(1)]],
        simp only: 2(1), rule call_blocks, simp add: logging_info_requests)
next
  case 3
  with assms(2) have "''address'' \<in> arg_keys arguments" by (simp add: has_required_def)
  then obtain d a where args: "arguments = Some d" and addr: "map_of d ''address'' = Some a"
    by (rule has_address)
  show ?thesis
    by (rule that [OF _ failure_message_of(3) [folded 3(1)]],
        simp only: 3(1) args, rule call_info [OF addr], simp add: logging_info_requests)
next
  case 4
  with assms(2) have "''address'' \<in> arg_keys arguments" by (simp add: has_required_def)
  then obtain d a where args: "arguments = Some d" and addr: "map_of d ''address'' = Some a"
    by (rule has_address)
  show ?thesis
    by (rule that [OF _ failure_message_of(4) [folded 4(1)]],
        simp only: 4(1) args, rule call_activities [OF addr], simp add: logging_info_requests)
next
  case 5
  with assms(2) have "''address'' \<in> arg_keys arguments" by (simp add: has_required_def)
  then obtain d a where args: "arguments = Some d" and addr: "map_of d ''address'' = Some a"
    by (rule has_address)
  show ?thesis
    by (rule that [OF _ failure_message_of(5) [folded 5(1)]],
        simp only: 5(1) args, rule call_meta [OF addr], simp add: logging_info_requests)
qed

lemma call_market_rejects:
  "handle_call_tool env ''get-token-market'' None w0 =
     (Inr address_required,
      logging_info (''Arguments: '' @ str_args None)
          (logging_info (''Tool called: get-token-market'') w0))"
  by (simp add: handle_call_tool_def Let_def args_truthy_def)

lemma call_market:
  assumes "map_of d ''address'' = Some a"
  shows "handle_call_tool env ''get-token-market'' (Some d) w0 =
     fetch_text env (''https://'' @ API_BASE @ ''/v2.0/token/market?address='' @ py_str a)
       ''Failed to retrieve token market data''
       (logging_info (''Arguments: '' @ str_args (Some d))
          (logging_info (''Tool called: get-token-market'') w0))"
  using assms
  by (auto simp add: handle_call_tool_def Let_def args_truthy_def the_args_def dict_in_def dict_item_def)

lemma listed_requiring_address:
  assumes "t \<in> set handle_list_tools" and "''address'' \<in> set (required_params t)"
  shows "tool_name t \<in> {''get-sol-token-price'', ''get-account-info'',
           ''get-account-activities'', ''get-token-info''}"
  using assms(1)
  by (cases rule: listed_cases) (use assms(2) in simp_all)

lemma first_tool:
  "hd handle_list_tools \<in> set handle_list_tools"
  "tool_name (hd handle_list_tools) = ''get-sol-token-price''"
  "required_params (hd handle_list_tools) = [''address'']"
  by (simp_all add: handle_list_tools_def required_params_def object_schema_def)

lemma fetch_text_is_text:
  "\<exists>text. fst (fetch_text env url failure w) = Inr [TextContent text]"
  by (simp add: fetch_text_reply)

lemma address_call_is_text:
  assumes "name = ''get-sol-token-price'' \<or> name = ''get-account-info'' \<or>
           name = ''get-account-activities'' \<or> name = ''get-token-info''"
  shows "\<exists>text. fst (handle_call_tool env name arguments w) = Inr [TextContent text]"
proof (cases "\<not> args_truthy arguments \<or> \<not> dict_in ''address'' (the_args arguments)")
  case True
  from assms have "name \<in> {''get-sol-token-price'', ''get-account-info'',
           ''get-account-activities'', ''get-token-info''}"
    by (simp only: insert_iff empty_iff simp_thms)
  from call_rejects [OF this True] show ?thesis
    by (simp only: address_required_def fst_conv) (rule exI, rule refl)
next
  case False
  then obtain d a where args: "arguments = Some d" and addr: "map_of d ''address'' = Some a"
    by (auto simp add: args_truthy_def dict_in_def the_args_def split: option.splits)
  from assms show ?thesis
  proof (elim disjE)
    assume n: "name = ''get-sol-token-price''"
    show ?thesis unfolding n args call_price [OF addr] by (rule fetch_text_is_text)
  next
    assume n: "name = ''get-account-info''"
    show ?thesis unfolding n args call_info [OF addr] by (rule fetch_text_is_text)
  next
    assume n: "name = ''get-account-activities''"
    show ?thesis unfolding n args call_activities [OF addr] by (rule fetch_text_is_text)
  next
    assume n: "name = ''get-token-info''"
    show ?thesis unfolding n args call_meta [OF addr] by (rule fetch_text_is_text)
  qed
qed

lemma sent_urls_fetch:
  assumes "handle_call_tool env name arguments w = fetch_text env url failure w'"
    and "http_requests w' = http_requests w"
  shows "sent_urls env name arguments w = [url]"
  by (simp add: sent_urls_def assms fetch_text_sends)

lemma sent_blocks:
  "sent_urls env ''get-latest-blocks'' arguments w =
     [''https://pro-api.solscan.io/v2.0/block/last?limit='' @
        py_str (if args_truthy arguments
                then dict_get (the_args arguments) ''limit'' (JInt 10) else JInt 10)]"
  by (simp add: sent_urls_fetch [OF call_blocks] logging_info_requests API_BASE_def)

lemma sent_info:
  assumes "map_of d ''address'' = Some a"
  shows "sent_urls env ''get-account-info'' (Some d) w =
     [''https://pro-api.solscan.io/v2.0/account/token-accounts?address='' @ py_str a
        @ ''&type=token&page='' @ py_str (dict_get d ''page'' (JInt 1))
        @ ''&page_size='' @ py_str (dict_get d ''page_size'' (JInt 10))]"
  by (simp add: sent_urls_fetch [OF call_info [OF assms]] logging_info_requests API_BASE_def)

lemma sent_activities:
  assumes "map_of d ''address'' = Some a"
  shows "sent_urls env ''get-account-activities'' (Some d) w =
     [''https://pro-api.solscan.io/v2.0/account/defi/activities?address='' @ py_str a
        @ ''&page='' @ py_str (dict_get d ''page'' (JInt 1))
        @ ''&page_size='' @ py_str (dict_get d ''page_size'' (JInt 10))
        @ ''&sort_by='' @ py_str (dict_get d ''sort_by'' (JStr ''block_time''))
        @ ''&sort_order='' @ py_str (dict_get d ''sort_order'' (JStr ''desc''))]"
  by (simp add: sent_urls_fetch [OF call_activities [OF assms]] logging_info_requests API_BASE_def)

lemma dict_get_present: "map_of d k = Some v \<Longrightarrow> dict_get d k dflt = v"
  by (simp add: dict_get_def)

lemma dict_get_absent: "map_of d k = None \<Longrightarrow> dict_get d k dflt = dflt"
  by (simp add: dict_get_def)

lemma py_str_JStr: "py_str (JStr s) = s"
  by (simp add: py_str_def)

lemma present_args_truthy: "map_of d k = Some v \<Longrightarrow> args_truthy (Some d)"
  by (cases d) (simp_all add: args_truthy_def)

lemma the_args_Some: "the_args (Some d) = d"
  by (simp add: the_args_def)

lemma wild_args_lookup:
  "map_of wild_args ''address'' = Some (JStr ''A'')"
  "map_of wild_args ''limit'' = Some (JInt 500)"
  "map_of wild_args ''page'' = Some (JInt (- 3))"
  "map_of wild_args ''page_size'' = Some (JInt 1000)"
  "map_of wild_args ''sort_by'' = Some (JStr ''fee'')"
  "map_of wild_args ''sort_order'' = Some (JStr ''sideways'')"
  by (simp_all add: wild_args_def)

lemma wild_renderings:
  "py_str (JInt 500) = ''500''" "py_str (JInt (- 3)) = ''-3''" "py_str (JInt 1000) = ''1000''"
  by (simp_all add: py_str_def str_int_def digits.simps digit_char_def)

lemma market_is_text:
  "\<exists>text. fst (handle_call_tool env ''get-token-market'' arguments w) = Inr [TextContent text]"
proof (cases "\<not> args_truthy arguments \<or> \<not> dict_in ''address'' (the_args arguments)")
  case True
  then have "handle_call_tool env ''get-token-market'' arguments w =
     (Inr address_required,
      logging_info (''Arguments: '' @ str_args arguments)
          (logging_info (''Tool called: get-token-market'') w))"
    by (auto simp add: handle_call_tool_def Let_def)
  then show ?thesis
    by (simp only: address_required_def fst_conv) (rule exI, rule refl)
next
  case False
  then obtain d a where args: "arguments = Some d" and addr: "map_of d ''address'' = Some a"
    by (auto simp add: args_truthy_def dict_in_def the_args_def split: option.splits)
  show ?thesis unfolding args call_market [OF addr] by (rule fetch_text_is_text)
qed

lemma list_tokens_is_text:
  "\<exists>text. fst (handle_call_tool env ''list-sol-tokens'' arguments w) = Inr [TextContent text]"
  unfolding call_list_tokens by (rule fetch_text_is_text)

lemmas render_defs = py_str_def repr_str_def repr_quote_def repr_char_def squote_def
  dquote_def backslash_def printable_def hex2_def str_int_def digits.simps digit_char_def
  Let_def

lemma example_payload: "py_str (JObj [(''total'', JInt 3)]) = [CHR ''{'', CHR 0x27] @ ''total'' @ [CHR 0x27] @ '': 3}''"
  by (simp add: render_defs)

lemma error_payload:
  "py_str (JObj [(''error'', JStr ''Server error'')]) =
     [CHR ''{'', CHR 0x27] @ ''error'' @ [CHR 0x27] @ '': '' @ [CHR 0x27] @ ''Server error''
       @ [CHR 0x27] @ ''}''"
  by (simp add: render_defs)

lemma failure_message_shape:
  assumes "map_of failure_messages n = Some failure"
  shows "take 19 failure = ''Failed to retrieve ''"
    and "failure \<notin> {''None'', ''False'', ''0'', [], ''[]'', ''{}''}"
  using assms
  by (simp_all add: failure_messages_def split: if_splits) (simp_all add: eq_commute)

lemma request_error_modes:
  "request_error (GetRaises e) = Some e"
  "\<not> is_success r \<Longrightarrow> request_error (GetReturns r) = Some (status_error r)"
  "is_success r \<Longrightarrow> json_result r = Inl e \<Longrightarrow> request_error (GetReturns r) = Some e"
  "is_success r \<Longrightarrow> json_result r = Inr v \<Longrightarrow> request_error (GetReturns r) = None"
  by (simp_all add: request_error_def)

section \<open>Missing address\<close>

text \<open>
  C1. For every tool of the catalog whose schema lists \<open>address\<close> as required
  (get-sol-token-price, get-account-info, get-account-activities, get-token-info), a call
  with \<open>arguments\<close> absent, or with a dict that has no key \<open>address\<close>, answers with the
  single text item \<open>Address parameter is required\<close> and sends no request upstream.
\<close>

theorem missing_address_rejected_without_request:
  assumes "t \<in> set handle_list_tools"
    and "''address'' \<in> set (required_params t)"
    and "arguments = None \<or> (\<exists>d. arguments = Some d \<and> ''address'' \<notin> fst ` set d)"
  shows "fst (handle_call_tool env (tool_name t) arguments w) =
           Inr [TextContent ''Address parameter is required'']
       \<and> http_requests (snd (handle_call_tool env (tool_name t) arguments w)) =
           http_requests w"
proof -
  from assms(3) have "\<not> args_truthy arguments \<or> \<not> dict_in ''address'' (the_args arguments)"
    by (auto simp add: args_truthy_def dict_in_def the_args_def map_of_eq_None_iff)
  with listed_requiring_address [OF assms(1,2)]
  have "handle_call_tool env (tool_name t) arguments w =
     (Inr address_required,
      logging_info (''Arguments: '' @ str_args arguments)
          (logging_info (''Tool called: '' @ tool_name t) w))"
    by (rule call_rejects)
  then show ?thesis
    by (simp add: address_required_def logging_info_requests)
qed

theorem missing_address_rejected_without_request_witness:
  "hd handle_list_tools \<in> set handle_list_tools
   \<and> ''address'' \<in> set (required_params (hd handle_list_tools))
   \<and> ''address'' \<notin> fst ` set [(''limit'', JInt 5)]
   \<and> fst (handle_call_tool (mock_env (GetRaises ''unreachable'')) ''get-sol-token-price''
            (Some [(''limit'', JInt 5)]) fresh_world) =
        Inr [TextContent ''Address parameter is required'']
   \<and> http_requests (snd (handle_call_tool (mock_env (GetRaises ''unreachable''))
            ''get-sol-token-price'' (Some [(''limit'', JInt 5)]) fresh_world)) = []"
proof -
  have k: "''address'' \<notin> fst ` set [(''limit'', JInt 5)]" by simp
  have r: "''address'' \<in> set (required_params (hd handle_list_tools))"
    by (simp add: first_tool(3))
  have e: "http_requests fresh_world = []" by (simp add: fresh_world_def)
  from missing_address_rejected_without_request [OF first_tool(1) r, unfolded first_tool(2),
      of "Some [(''limit'', JInt 5)]" "mock_env (GetRaises ''unreachable'')" fresh_world] k
  have "fst (handle_call_tool (mock_env (GetRaises ''unreachable'')) ''get-sol-token-price''
            (Some [(''limit'', JInt 5)]) fresh_world) =
        Inr [TextContent ''Address parameter is required'']
   \<and> http_requests (snd (handle_call_tool (mock_env (GetRaises ''unreachable''))
            ''get-sol-token-price'' (Some [(''limit'', JInt 5)]) fresh_world)) = http_requests fresh_world"
    by simp
  with k r first_tool(1) e show ?thesis by (simp only: simp_thms)
qed

section \<open>Shape of the response\<close>

text \<open>
  C8. For every name of the catalog and every \<open>arguments\<close> (a dict or absent), whatever
  the upstream does, the call returns a list of exactly one content item, and the item
  is a text item.
\<close>

theorem registered_call_returns_one_text_item:
  assumes "name \<in> set tool_names"
  shows "\<exists>text. fst (handle_call_tool env name arguments w) = Inr [TextContent text]"
proof -
  from assms have "name = ''get-sol-token-price'' \<or> name = ''get-latest-blocks'' \<or>
      name = ''get-account-info'' \<or> name = ''get-account-activities'' \<or>
      name = ''get-token-info''"
    unfolding tool_names_eq by simp
  then show ?thesis
  proof (elim disjE)
    assume n: "name = ''get-latest-blocks''"
    show ?thesis unfolding n call_blocks by (rule fetch_text_is_text)
  qed (rule address_call_is_text, simp only: simp_thms)+
qed

theorem registered_call_returns_one_text_item_witness:
  "''get-latest-blocks'' \<in> set tool_names
   \<and> fst (handle_call_tool (mock_env (GetReturns (ok_response (JArr [JInt 7]))))
        ''get-latest-blocks'' None fresh_world) = Inr [TextContent ''[7]'']"
  using registered_call_returns_one_text_item
    [of "''get-latest-blocks''" "mock_env (GetReturns (ok_response (JArr [JInt 7])))"
        None fresh_world]
  by (simp add: tool_names_eq call_blocks fetch_text_reply make_solscan_request_def
      mock_env_def ok_response_def is_success_def Let_def py_str_def str_int_def
      digits.simps digit_char_def)

section \<open>The constructed URLs\<close>

text \<open>
  C5. For get-account-activities called with only \<open>address = X\<close>, the one URL requested
  is the activities path with the query \<open>address=X\<close> followed by
  \<open>page=1&page_size=10&sort_by=block_time&sort_order=desc\<close>, in that order.
\<close>

theorem activities_default_query:
  "sent_urls env ''get-account-activities'' (Some [(''address'', JStr X)]) w =
     [''https://pro-api.solscan.io/v2.0/account/defi/activities?address='' @ X
        @ ''&page=1&page_size=10&sort_by=block_time&sort_order=desc'']"
proof -
  have addr: "map_of [(''address'', JStr X)] ''address'' = Some (JStr X)" by simp
  have absent: "map_of [(''address'', JStr X)] ''page'' = None"
    "map_of [(''address'', JStr X)] ''page_size'' = None"
    "map_of [(''address'', JStr X)] ''sort_by'' = None"
    "map_of [(''address'', JStr X)] ''sort_order'' = None"
    by simp_all
  show ?thesis
    by (simp add: sent_activities [OF addr] absent [THEN dict_get_absent]
        py_str_small_ints py_str_JStr)
qed

theorem activities_default_query_witness:
  "sent_urls (mock_env (GetRaises ''timed out'')) ''get-account-activities''
      (Some [(''address'', JStr ''X'')]) fresh_world =
     [''https://pro-api.solscan.io/v2.0/account/defi/activities?address=X&page=1&page_size=10&sort_by=block_time&sort_order=desc'']"
  using activities_default_query [of "mock_env (GetRaises ''timed out'')" "''X''" fresh_world]
  by simp

text \<open>
  C6. For get-latest-blocks called with \<open>arguments\<close> absent, or with the empty dict,
  the one URL requested has the query \<open>limit=10\<close>.
\<close>

theorem latest_blocks_default_limit:
  "sent_urls env ''get-latest-blocks'' None w =
     [''https://pro-api.solscan.io/v2.0/block/last?limit=10'']
   \<and> sent_urls env ''get-latest-blocks'' (Some []) w =
     [''https://pro-api.solscan.io/v2.0/block/last?limit=10'']"
  by (simp add: sent_blocks args_truthy_def py_str_small_ints)

theorem latest_blocks_default_limit_witness:
  "sent_urls (mock_env (GetReturns (ok_response (JArr [])))) ''get-latest-blocks'' None
      fresh_world = [''https://pro-api.solscan.io/v2.0/block/last?limit=10'']
   \<and> sent_urls (mock_env (GetReturns (ok_response (JArr [])))) ''get-latest-blocks''
      (Some []) fresh_world = [''https://pro-api.solscan.io/v2.0/block/last?limit=10'']"
  using latest_blocks_default_limit
    [of "mock_env (GetReturns (ok_response (JArr [])))" fresh_world]
  by simp

text \<open>
  C10. For get-account-info called with a dict that has the key \<open>address\<close>, the one URL
  requested has the fixed parameter \<open>type=token\<close> between the address parameter and the
  page parameter, whatever else the dict holds.
\<close>

theorem account_info_type_token:
  assumes "map_of d ''address'' = Some a"
  shows "sent_urls env ''get-account-info'' (Some d) w =
     [''https://pro-api.solscan.io/v2.0/account/token-accounts?address='' @ py_str a
        @ ''&type=token'' @ ''&page='' @ py_str (dict_get d ''page'' (JInt 1))
        @ ''&page_size='' @ py_str (dict_get d ''page_size'' (JInt 10))]"
  by (simp add: sent_info [OF assms])

theorem account_info_type_token_witness:
  "map_of [(''type'', JStr ''nft''), (''address'', JStr ''A''), (''page'', JInt 2)] ''address''
     = Some (JStr ''A'')
   \<and> sent_urls (mock_env (GetRaises ''timed out'')) ''get-account-info''
       (Some [(''type'', JStr ''nft''), (''address'', JStr ''A''), (''page'', JInt 2)])
       fresh_world =
     [''https://pro-api.solscan.io/v2.0/account/token-accounts?address=A&type=token&page=2&page_size=10'']"
  using account_info_type_token
    [of "[(''type'', JStr ''nft''), (''address'', JStr ''A''), (''page'', JInt 2)]" "JStr ''A''"
        "mock_env (GetRaises ''timed out'')" fresh_world]
  by (simp add: dict_get_def py_str_def str_int_def digits.simps digit_char_def)

text \<open>
  C7. No range or enum enforcement: whenever a call supplies a value \<open>v\<close> for one of
  the optional parameters (\<open>limit\<close> of get-latest-blocks; \<open>page\<close> and \<open>page_size\<close> of
  get-account-info; \<open>page\<close>, \<open>page_size\<close>, \<open>sort_by\<close> and \<open>sort_order\<close> of
  get-account-activities), the request is sent, and its URL holds \<open>str v\<close> as the value
  of that parameter, whatever \<open>v\<close> is.
\<close>

theorem optional_parameters_forwarded_verbatim:
  "(map_of d ''limit'' = Some v \<longrightarrow>
      sent_urls env ''get-latest-blocks'' (Some d) w =
        [''https://pro-api.solscan.io/v2.0/block/last?limit='' @ py_str v])
   \<and> (map_of d ''address'' = Some a \<and> map_of d ''page'' = Some v \<longrightarrow>
      sent_urls env ''get-account-info'' (Some d) w =
        [''https://pro-api.solscan.io/v2.0/account/token-accounts?address='' @ py_str a
           @ ''&type=token&page='' @ py_str v
           @ ''&page_size='' @ py_str (dict_get d ''page_size'' (JInt 10))])
   \<and> (map_of d ''address'' = Some a \<and> map_of d ''page_size'' = Some v \<longrightarrow>
      sent_urls env ''get-account-info'' (Some d) w =
        [''https://pro-api.solscan.io/v2.0/account/token-accounts?address='' @ py_str a
           @ ''&type=token&page='' @ py_str (dict_get d ''page'' (JInt 1))
           @ ''&page_size='' @ py_str v])
   \<and> (map_of d ''address'' = Some a \<and> map_of d ''page'' = Some v \<longrightarrow>
      sent_urls env ''get-account-activities'' (Some d) w =
        [''https://pro-api.solscan.io/v2.0/account/defi/activities?address='' @ py_str a
           @ ''&page='' @ py_str v
           @ ''&page_size='' @ py_str (dict_get d ''page_size'' (JInt 10))
           @ ''&sort_by='' @ py_str (dict_get d ''sort_by'' (JStr ''block_time''))
           @ ''&sort_order='' @ py_str (dict_get d ''sort_order'' (JStr ''desc''))])
   \<and> (map_of d ''address'' = Some a \<and> map_of d ''page_size'' = Some v \<longrightarrow>
      sent_urls env ''get-account-activities'' (Some d) w =
        [''https://pro-api.solscan.io/v2.0/account/defi/activities?address='' @ py_str a
           @ ''&page='' @ py_str (dict_get d ''page'' (JInt 1))
           @ ''&page_size='' @ py_str v
           @ ''&sort_by='' @ py_str (dict_get d ''sort_by'' (JStr ''block_time''))
           @ ''&sort_order='' @ py_str (dict_get d ''sort_order'' (JStr ''desc''))])
   \<and> (map_of d ''address'' = Some a \<and> map_of d ''sort_by'' = Some v \<longrightarrow>
      sent_urls env ''get-account-activities'' (Some d) w =
        [''https://pro-api.solscan.io/v2.0/account/defi/activities?address='' @ py_str a
           @ ''&page='' @ py_str (dict_get d ''page'' (JInt 1))
           @ ''&page_size='' @ py_str (dict_get d ''page_size'' (JInt 10))
           @ ''&sort_by='' @ py_str v
           @ ''&sort_order='' @ py_str (dict_get d ''sort_order'' (JStr ''desc''))])
   \<and> (map_of d ''address'' = Some a \<and> map_of d ''sort_order'' = Some v \<longrightarrow>
      sent_urls env ''get-account-activities'' (Some d) w =
        [''https://pro-api.solscan.io/v2.0/account/defi/activities?address='' @ py_str a
           @ ''&page='' @ py_str (dict_get d ''page'' (JInt 1))
           @ ''&page_size='' @ py_str (dict_get d ''page_size'' (JInt 10))
           @ ''&sort_by='' @ py_str (dict_get d ''sort_by'' (JStr ''block_time''))
           @ ''&sort_order='' @ py_str v])"
proof (intro conjI impI)
  assume "map_of d ''limit'' = Some v"
  then show "sent_urls env ''get-latest-blocks'' (Some d) w =
        [''https://pro-api.solscan.io/v2.0/block/last?limit='' @ py_str v]"
    by (simp add: sent_blocks present_args_truthy the_args_Some dict_get_present)
qed (simp_all add: sent_info sent_activities dict_get_present)

theorem optional_parameters_forwarded_verbatim_witness:
  "map_of wild_args ''limit'' = Some (JInt 500)
   \<and> sent_urls (mock_env (GetRaises ''timed out'')) ''get-latest-blocks'' (Some wild_args)
        fresh_world = [''https://pro-api.solscan.io/v2.0/block/last?limit=500'']
   \<and> map_of wild_args ''address'' = Some (JStr ''A'')
   \<and> map_of wild_args ''sort_order'' = Some (JStr ''sideways'')
   \<and> sent_urls (mock_env (GetRaises ''timed out'')) ''get-account-activities''
        (Some wild_args) fresh_world =
        [''https://pro-api.solscan.io/v2.0/account/defi/activities?address=A&page=-3&page_size=1000&sort_by=fee&sort_order=sideways'']"
  using optional_parameters_forwarded_verbatim
      [of wild_args "JInt 500" "mock_env (GetRaises ''timed out'')" fresh_world "JStr ''A''"]
    optional_parameters_forwarded_verbatim
      [of wild_args "JStr ''sideways''" "mock_env (GetRaises ''timed out'')" fresh_world
          "JStr ''A''"]
  by (simp add: wild_args_lookup dict_get_present wild_renderings py_str_JStr)

section \<open>Names outside the catalog\<close>

text \<open>
  C2. The claim is that every name outside the catalog makes the call raise and never
  yields a text response. The dispatcher still has live branches for list-sol-tokens and
  get-token-market, whose descriptors the catalog has commented out: for these two
  names the call answers with one text item. Every other name outside the catalog
  raises \<open>ValueError\<close> with the message \<open>Unknown tool: name\<close>.
\<close>

theorem unlisted_names_dispatch:
  assumes "name \<notin> set tool_names"
  shows "if name = ''list-sol-tokens'' \<or> name = ''get-token-market''
         then \<exists>text. fst (handle_call_tool env name arguments w) = Inr [TextContent text]
         else fst (handle_call_tool env name arguments w) =
                Inl (ValueError (''Unknown tool: '' @ name))"
proof (cases "name = ''list-sol-tokens'' \<or> name = ''get-token-market''")
  case True
  then have "\<exists>text. fst (handle_call_tool env name arguments w) = Inr [TextContent text]"
  proof
    assume n: "name = ''list-sol-tokens''"
    show ?thesis unfolding n by (rule list_tokens_is_text)
  next
    assume n: "name = ''get-token-market''"
    show ?thesis unfolding n by (rule market_is_text)
  qed
  with True show ?thesis by (simp only: if_True)
next
  case False
  with assms have "name \<notin> {''get-sol-token-price'', ''list-sol-tokens'', ''get-token-market'',
     ''get-latest-blocks'', ''get-account-info'', ''get-account-activities'', ''get-token-info''}"
    unfolding tool_names_eq by simp
  from call_unknown [OF this] False show ?thesis by (simp only: if_False fst_conv)
qed

theorem unlisted_names_dispatch_witness:
  "''list-sol-tokens'' \<notin> set tool_names
   \<and> fst (handle_call_tool (mock_env (GetReturns (ok_response (JObj [(''total'', JInt 3)]))))
        ''list-sol-tokens'' None fresh_world) =
      Inr [TextContent ([CHR ''{'', CHR 0x27] @ ''total'' @ [CHR 0x27] @ '': 3}'')]"
proof -
  have n: "''list-sol-tokens'' \<notin> set tool_names" by (simp add: tool_names_eq)
  have ok: "fst (make_solscan_request
        (mock_env (GetReturns (ok_response (JObj [(''total'', JInt 3)])))) url w') =
      JObj [(''total'', JInt 3)]" for url w'
    by (rule make_solscan_request_ok [where r = "ok_response (JObj [(''total'', JInt 3)])"])
       (simp_all add: mock_env_def ok_response_def is_success_def)
  from unlisted_names_dispatch [OF n, of "mock_env (GetReturns (ok_response (JObj [(''total'', JInt 3)])))" None fresh_world]
  have "\<exists>text. fst (handle_call_tool (mock_env (GetReturns (ok_response (JObj [(''total'', JInt 3)]))))
        ''list-sol-tokens'' None fresh_world) = Inr [TextContent text]"
    by simp
  then have "fst (handle_call_tool (mock_env (GetReturns (ok_response (JObj [(''total'', JInt 3)]))))
        ''list-sol-tokens'' None fresh_world) =
      Inr [TextContent (py_str (JObj [(''total'', JInt 3)]))]"
    by (simp add: call_list_tokens fetch_text_reply ok)
  with n show ?thesis by (simp only: example_payload simp_thms)
qed

section \<open>Results of the upstream request\<close>

text \<open>
  C3. Round trip, as the code has it: for every tool of the catalog called with its
  required arguments, if the request helper returns a value \<open>v\<close> that Python takes as
  true (a non-empty object in particular), the call answers with the single text item
  \<open>str v\<close>.
\<close>

theorem truthy_payload_round_trip:
  assumes "t \<in> set handle_list_tools" and "has_required t arguments"
    and "\<forall>url w'. fst (make_solscan_request env url w') = v"
    and "truthy v"
  shows "fst (handle_call_tool env (tool_name t) arguments w) = Inr [TextContent (py_str v)]"
proof -
  from assms(1,2) obtain url failure w' where
    "handle_call_tool env (tool_name t) arguments w = fetch_text env url failure w'"
    by (rule listed_call_fetches)
  with assms(3,4) show ?thesis by (simp add: fetch_text_reply)
qed

theorem truthy_payload_round_trip_witness:
  "hd handle_list_tools \<in> set handle_list_tools
   \<and> has_required (hd handle_list_tools) (Some [(''address'', JStr ''X'')])
   \<and> (\<forall>url w'. fst (make_solscan_request
          (mock_env (GetReturns (ok_response (JObj [(''total'', JInt 3)])))) url w') =
        JObj [(''total'', JInt 3)])
   \<and> truthy (JObj [(''total'', JInt 3)])
   \<and> fst (handle_call_tool (mock_env (GetReturns (ok_response (JObj [(''total'', JInt 3)]))))
        ''get-sol-token-price'' (Some [(''address'', JStr ''X'')]) fresh_world) =
      Inr [TextContent ([CHR ''{'', CHR 0x27] @ ''total'' @ [CHR 0x27] @ '': 3}'')]"
proof -
  have ok: "\<forall>url w'. fst (make_solscan_request
        (mock_env (GetReturns (ok_response (JObj [(''total'', JInt 3)])))) url w') =
      JObj [(''total'', JInt 3)]"
    by (intro allI, rule make_solscan_request_ok [where r = "ok_response (JObj [(''total'', JInt 3)])"])
       (simp_all add: mock_env_def ok_response_def is_success_def)
  have req: "has_required (hd handle_list_tools) (Some [(''address'', JStr ''X'')])"
    by (simp add: has_required_def first_tool(3) arg_keys_def)
  have tr: "truthy (JObj [(''total'', JInt 3)])" by simp
  from truthy_payload_round_trip [OF first_tool(1) req ok tr, unfolded first_tool(2) example_payload]
    first_tool(1) req ok tr
  show ?thesis by (simp only: simp_thms)
qed

text \<open>
  The round trip fails for the empty object: the helper returns \<open>{}\<close>, which is false,
  and get-token-info answers with its failure message instead of \<open>{}\<close>.
\<close>

theorem empty_object_not_echoed:
  "fst (make_solscan_request (mock_env (GetReturns (ok_response (JObj []))))
          ''https://pro-api.solscan.io/v2.0/token/meta?address=X'' fresh_world) = JObj []
   \<and> sent_urls (mock_env (GetReturns (ok_response (JObj [])))) ''get-token-info''
          (Some [(''address'', JStr ''X'')]) fresh_world =
        [''https://pro-api.solscan.io/v2.0/token/meta?address=X'']
   \<and> fst (handle_call_tool (mock_env (GetReturns (ok_response (JObj [])))) ''get-token-info''
          (Some [(''address'', JStr ''X'')]) fresh_world) =
        Inr [TextContent ''Failed to retrieve token metadata'']
   \<and> py_str (JObj []) = ''{}''
   \<and> fst (handle_call_tool (mock_env (GetReturns (ok_response (JObj [])))) ''get-token-info''
          (Some [(''address'', JStr ''X'')]) fresh_world) \<noteq>
        Inr [TextContent (py_str (JObj []))]"
proof -
  have ok: "fst (make_solscan_request (mock_env (GetReturns (ok_response (JObj [])))) url w') =
      JObj []" for url w'
    by (rule make_solscan_request_ok [where r = "ok_response (JObj [])"])
       (simp_all add: mock_env_def ok_response_def is_success_def)
  have addr: "map_of [(''address'', JStr ''X'')] ''address'' = Some (JStr ''X'')" by simp
  have reply: "fst (handle_call_tool (mock_env (GetReturns (ok_response (JObj []))))
          ''get-token-info'' (Some [(''address'', JStr ''X'')]) fresh_world) =
        Inr [TextContent ''Failed to retrieve token metadata'']"
    by (simp add: call_meta [OF addr] fetch_text_reply ok)
  have url: "sent_urls (mock_env (GetReturns (ok_response (JObj [])))) ''get-token-info''
          (Some [(''address'', JStr ''X'')]) fresh_world =
        [''https://pro-api.solscan.io/v2.0/token/meta?address=X'']"
    by (simp add: sent_urls_fetch [OF call_meta [OF addr]] logging_info_requests API_BASE_def
        py_str_JStr)
  have str: "py_str (JObj []) = ''{}''" by (simp add: py_str_def)
  show ?thesis unfolding reply str url ok by simp
qed

text \<open>
  C4. For every tool of the catalog called with its required arguments, if the GET
  fails in whatever way (it raises, the status is not 2xx, or the body does not decode),
  the helper turns the message \<open>e\<close> into the dict \<open>{error: e}\<close>, and the call returns
  normally with the single text item \<open>str\<close> of that dict; nothing is raised.
\<close>

theorem upstream_failure_becomes_error_text:
  assumes "t \<in> set handle_list_tools" and "has_required t arguments"
    and "\<forall>url. request_error (client_get env url [(''token'', API_TOKEN env)]) \<noteq> None"
  shows "\<exists>url e. sent_urls env (tool_name t) arguments w = [url]
           \<and> request_error (client_get env url [(''token'', API_TOKEN env)]) = Some e
           \<and> (\<forall>w'. fst (make_solscan_request env url w') = JObj [(''error'', JStr e)])
           \<and> fst (handle_call_tool env (tool_name t) arguments w) =
               Inr [TextContent (py_str (JObj [(''error'', JStr e)]))]"
proof -
  from assms(1,2) obtain url failure w' where
    call: "handle_call_tool env (tool_name t) arguments w = fetch_text env url failure w'"
    and same: "http_requests w' = http_requests w"
    by (rule listed_call_fetches)
  from assms(3) obtain e where
    e: "request_error (client_get env url [(''token'', API_TOKEN env)]) = Some e"
    by blast
  then have dict: "fst (make_solscan_request env url w'') = JObj [(''error'', JStr e)]" for w''
    by (rule make_solscan_request_error)
  have "sent_urls env (tool_name t) arguments w = [url]"
    using call same by (rule sent_urls_fetch)
  moreover have "fst (handle_call_tool env (tool_name t) arguments w) =
      Inr [TextContent (py_str (JObj [(''error'', JStr e)]))]"
    by (simp add: call fetch_text_reply dict)
  ultimately show ?thesis using e dict by blast
qed

theorem upstream_failure_becomes_error_text_witness:
  "hd handle_list_tools \<in> set handle_list_tools
   \<and> has_required (hd handle_list_tools) (Some [(''address'', JStr ''X'')])
   \<and> (\<forall>url. request_error (client_get (mock_env (GetReturns server_error)) url
          [(''token'', API_TOKEN (mock_env (GetReturns server_error)))]) \<noteq> None)
   \<and> fst (handle_call_tool (mock_env (GetReturns server_error)) ''get-sol-token-price''
          (Some [(''address'', JStr ''X'')]) fresh_world) =
        Inr [TextContent ([CHR ''{'', CHR 0x27] @ ''error'' @ [CHR 0x27] @ '': '' @ [CHR 0x27]
               @ ''Server error'' @ [CHR 0x27] @ ''}'')]"
proof -
  have err: "request_error (client_get (mock_env (GetReturns server_error)) url
          [(''token'', API_TOKEN (mock_env (GetReturns server_error)))]) = Some ''Server error''"
    for url
    by (simp add: request_error_def mock_env_def server_error_def is_success_def)
  then have fails: "\<forall>url. request_error (client_get (mock_env (GetReturns server_error)) url
          [(''token'', API_TOKEN (mock_env (GetReturns server_error)))]) \<noteq> None"
    by simp
  have req: "has_required (hd handle_list_tools) (Some [(''address'', JStr ''X'')])"
    by (simp add: has_required_def first_tool(3) arg_keys_def)
  from upstream_failure_becomes_error_text [OF first_tool(1) req fails, of fresh_world,
      unfolded first_tool(2) err]
  have "fst (handle_call_tool (mock_env (GetReturns server_error)) ''get-sol-token-price''
          (Some [(''address'', JStr ''X'')]) fresh_world) =
        Inr [TextContent (py_str (JObj [(''error'', JStr ''Server error'')]))]"
    by auto
  with first_tool(1) req fails show ?thesis by (simp only: error_payload simp_thms)
qed

text \<open>
  C9. For every tool of the catalog called with its required arguments, if the GET
  succeeds (2xx, decodable body) and the decoded value is false in Python (empty object,
  empty list, \<open>None\<close>, 0, \<open>False\<close>, empty string), the call answers with the tool's
  failure message, which starts with \<open>Failed to retrieve\<close>, and not with \<open>str\<close> of the
  value.
\<close>

theorem falsy_payload_reported_as_failure:
  assumes "t \<in> set handle_list_tools" and "has_required t arguments"
    and "\<forall>url hdrs. client_get env url hdrs = GetReturns r"
    and "is_success r" and "json_result r = Inr v" and "\<not> truthy v"
  shows "\<exists>failure. map_of failure_messages (tool_name t) = Some failure
           \<and> take 19 failure = ''Failed to retrieve ''
           \<and> fst (handle_call_tool env (tool_name t) arguments w) = Inr [TextContent failure]
           \<and> fst (handle_call_tool env (tool_name t) arguments w) \<noteq>
               Inr [TextContent (py_str v)]"
proof -
  from assms(1,2) obtain url failure w' where
    call: "handle_call_tool env (tool_name t) arguments w = fetch_text env url failure w'"
    and msg: "map_of failure_messages (tool_name t) = Some failure"
    by (rule listed_call_fetches)
  from assms(3) have "client_get env url [(''token'', API_TOKEN env)] = GetReturns r" by simp
  then have data: "fst (make_solscan_request env url w') = v"
    using assms(4,5) by (rule make_solscan_request_ok)
  have reply: "fst (handle_call_tool env (tool_name t) arguments w) = Inr [TextContent failure]"
    by (simp add: call fetch_text_reply data assms(6))
  from falsy_renderings [OF assms(6)] failure_message_shape(2) [OF msg]
  have "failure \<noteq> py_str v" by auto
  with reply msg failure_message_shape(1) [OF msg] show ?thesis by simp
qed

theorem falsy_payload_reported_as_failure_witness:
  "hd handle_list_tools \<in> set handle_list_tools
   \<and> has_required (hd handle_list_tools) (Some [(''address'', JStr ''X'')])
   \<and> (\<forall>url hdrs. client_get (mock_env (GetReturns (ok_response (JArr [])))) url hdrs =
         GetReturns (ok_response (JArr [])))
   \<and> is_success (ok_response (JArr []))
   \<and> json_result (ok_response (JArr [])) = Inr (JArr [])
   \<and> \<not> truthy (JArr [])
   \<and> fst (handle_call_tool (mock_env (GetReturns (ok_response (JArr []))))
        ''get-sol-token-price'' (Some [(''address'', JStr ''X'')]) fresh_world) =
      Inr [TextContent ''Failed to retrieve token price data'']"
proof -
  have up: "\<forall>url hdrs. client_get (mock_env (GetReturns (ok_response (JArr [])))) url hdrs =
         GetReturns (ok_response (JArr []))"
    by (simp add: mock_env_def)
  have ok: "is_success (ok_response (JArr []))" by (simp add: ok_response_def is_success_def)
  have body: "json_result (ok_response (JArr [])) = Inr (JArr [])" by (simp add: ok_response_def)
  have falsy: "\<not> truthy (JArr [])" by simp
  have req: "has_required (hd handle_list_tools) (Some [(''address'', JStr ''X'')])"
    by (simp add: has_required_def first_tool(3) arg_keys_def)
  from falsy_payload_reported_as_failure [OF first_tool(1) req up ok body falsy, of fresh_world,
      unfolded first_tool(2) failure_message_of(1)]
  have "fst (handle_call_tool (mock_env (GetReturns (ok_response (JArr []))))
        ''get-sol-token-price'' (Some [(''address'', JStr ''X'')]) fresh_world) =
      Inr [TextContent ''Failed to retrieve token price data'']"
    by auto
  with first_tool(1) req up ok body falsy show ?thesis by (simp only: simp_thms)
qed

end
